theory Spec2Isabelle
  imports Main "HOL-Library.Word"
begin

section \<open>The exchange server (src/server/server.go)\<close>

text \<open>
  A shallow embedding of the \<open>ExchangeServer\<close> facade: coin registration, the
  configuration getters, the UTXO reservation dispatchers and the settlement of matched
  orders. Panics are values of type \<open>panic\<close>, returned errors are values of type
  \<open>error\<close>, and every method that mutates the server returns the new server.
\<close>

subsection \<open>Errors and panics\<close>

datatype error =
    AlreadyRegistered string   \<comment> \<open>\<open>"%s coin already registered"\<close>\<close>
  | NotSupported string        \<comment> \<open>\<open>"%s coin is not supported"\<close>\<close>
  | UnknowCoinType             \<comment> \<open>\<open>errors.New("unknow coin type")\<close>\<close>
  | InsufficientBalance        \<comment> \<open>the account store's \<open>insufficient_balance\<close>\<close>
  | ReservationTimeout         \<comment> \<open>the pool's \<open>reservation_timeout\<close>\<close>
  | OtherError string

datatype panic =
    PanicMsg string            \<comment> \<open>\<open>panic("...")\<close>\<close>
  | PanicErr error             \<comment> \<open>\<open>panic(err)\<close>\<close>
  | TypeAssertion              \<comment> \<open>a failed \<open>x.(T)\<close>\<close>

subsection \<open>Strings\<close>

text \<open>\<open>strings.HasPrefix(s, prefix)\<close>.\<close>

fun HasPrefix :: "string \<Rightarrow> string \<Rightarrow> bool" where
  "HasPrefix s [] = True"
| "HasPrefix [] (p # ps) = False"
| "HasPrefix (c # cs) (p # ps) = (c = p \<and> HasPrefix cs ps)"

text \<open>
  \<open>strings.Contains(s, substr)\<close>: \<open>substr\<close> occurs in \<open>s\<close> at some position.
  The empty string occurs in every string.
\<close>

fun Contains :: "string \<Rightarrow> string \<Rightarrow> bool" where
  "Contains [] substr = HasPrefix [] substr"
| "Contains (c # cs) substr = (HasPrefix (c # cs) substr \<or> Contains cs substr)"

text \<open>
  \<open>strings.Split(s, sep)\<close> for a separator of one byte, which is how the server calls
  it: the pieces of \<open>s\<close> between the occurrences of \<open>sep\<close>, one more piece than
  there are occurrences (so a string without \<open>sep\<close>, the empty one too, gives one piece).
\<close>

fun Split :: "string \<Rightarrow> char \<Rightarrow> string list" where
  "Split [] sep = [[]]"
| "Split (c # cs) sep =
     (if c = sep then [] # Split cs sep
      else (case Split cs sep of
              [] \<Rightarrow> [[c]]
            | p # ps \<Rightarrow> (c # p) # ps))"

subsection \<open>Configuration\<close>

text \<open>
  \<open>Config\<close>. Go's \<open>int\<close> is a 64-bit two's complement integer on the platforms the
  server is built for: a \<open>64 word\<close> read with \<open>sint\<close>.
\<close>

record Config =
  Server :: string
  Port :: "64 word"
  BtcFee :: "64 word"
  DataDir :: string
  Seed :: string
  Seckey :: string
  UtxoPoolSize :: "64 word"
  Admins :: string
  NodeAddresses :: "string \<rightharpoonup> string"
  HttpProf :: bool

subsection \<open>Collaborators\<close>

text \<open>
  The server calls into packages of the repository whose sources are not among the files
  verified here (\<open>coin\<close>, \<open>account\<close>, \<open>order\<close>, \<open>wallet\<close>). What the server
  uses of them is declared below in the words of the specification.
\<close>

text \<open>
  Modelled from the spec: the constant \<open>bitcoin.Type\<close> of package \<open>coin/bitcoin\<close>,
  the name of the main asset of the pair \<open>bitcoin/skycoin\<close>.
\<close>

definition bitcoin_Type :: string where
  "bitcoin_Type = ''bitcoin''"

text \<open>
  Modelled from the spec: the constant \<open>skycoin.Type\<close> of package \<open>coin/skycoin\<close>,
  the name of the sub asset of the pair \<open>bitcoin/skycoin\<close>.
\<close>

definition skycoin_Type :: string where
  "skycoin_Type = ''skycoin''"

text \<open>
  Modelled from the spec: the interface \<open>coin.Gateway\<close>, the capability surface of a
  chain. The server observes a gateway through its \<open>Type()\<close> and \<open>Symbol()\<close>
  methods only.
\<close>

record Gateway =
  gw_Type :: string
  gw_Symbol :: string

text \<open>
  Modelled from the spec: the type \<open>order.Type\<close>, the side of an order. The server
  distinguishes \<open>order.Bid\<close> and \<open>order.Ask\<close>; any other value of the type is
  \<open>OtherType\<close>.
\<close>

datatype order_Type = Bid | Ask | OtherType

text \<open>
  Modelled from the spec: the struct \<open>order.Order\<close>, as far as the server reads it.
  Price and amount are non-negative integers; the amount is the quantity of the main
  asset, and the total of the sub asset is price times amount. The server computes
  that total in unsigned 64-bit arithmetic; \<open>settleOrder\<close> writes the wrap-around out.
\<close>

record Order =
  AccountID :: string
  Type :: order_Type
  Price :: nat
  Amount :: nat

text \<open>
  Modelled from the spec: an account of package \<open>account\<close>, a mapping from asset symbol
  to a non-negative integer balance (an asset never credited reads 0) and the deposit
  addresses of each asset.
\<close>

record Account =
  balances :: "string \<Rightarrow> nat"
  addresses :: "string \<Rightarrow> string list"

text \<open>
  Modelled from the spec: the account store \<open>account.Manager\<close>, a map from account id
  to account, and the snapshot of it that was last written to disk.
\<close>

record Manager =
  accounts :: "string \<rightharpoonup> Account"
  persisted :: "string \<rightharpoonup> Account"

text \<open>Modelled from the spec: \<open>account.NewManager\<close>, the store without accounts.\<close>

definition NewManager :: Manager where
  "NewManager = \<lparr>accounts = Map.empty, persisted = Map.empty\<rparr>"

text \<open>
  Modelled from the spec: \<open>GetAccount\<close> of the account store (\<open>get(id)\<close>), which
  fails for an id without account.
\<close>

definition GetAccount :: "Manager \<Rightarrow> string \<Rightarrow> error + Account" where
  "GetAccount m aid =
     (case accounts m aid of
        None \<Rightarrow> Inl (OtherError ''account does not exist'')
      | Some a \<Rightarrow> Inr a)"

text \<open>
  Modelled from the spec: \<open>IncreaseBalance\<close> of an account
  (\<open>increase(id, asset, amt)\<close>), which adds the amount to the balance of the asset.
\<close>

definition IncreaseBalance :: "Account \<Rightarrow> string \<Rightarrow> nat \<Rightarrow> error + Account" where
  "IncreaseBalance a ct amt = Inr (a\<lparr>balances := (balances a)(ct := balances a ct + amt)\<rparr>)"

text \<open>
  Modelled from the spec: \<open>DecreaseBalance\<close> of an account
  (\<open>decrease(id, asset, amt)\<close>), which fails with \<open>insufficient_balance\<close> if the
  amount is greater than the current balance and subtracts it otherwise.
\<close>

definition DecreaseBalance :: "Account \<Rightarrow> string \<Rightarrow> nat \<Rightarrow> error + Account" where
  "DecreaseBalance a ct amt =
     (if amt > balances a ct then Inl InsufficientBalance
      else Inr (a\<lparr>balances := (balances a)(ct := balances a ct - amt)\<rparr>))"

text \<open>
  Modelled from the spec: \<open>Save\<close> of the account store (\<open>save_all()\<close>), which
  writes the whole store as one snapshot. The specification gives it no failure.
\<close>

definition Save :: "Manager \<Rightarrow> error option \<times> Manager" where
  "Save m = (None, m\<lparr>persisted := accounts m\<rparr>)"

text \<open>
  Modelled from the spec: a channel of matched orders, as its capacity and the events
  it buffers.
\<close>

record chan =
  capacity :: nat
  buffer :: "Order list"

text \<open>Modelled from the spec: \<open>make(chan order.Order, n)\<close>, an empty channel of capacity \<open>n\<close>.\<close>

definition make_chan :: "nat \<Rightarrow> chan" where
  "make_chan n = \<lparr>capacity = n, buffer = []\<rparr>"

text \<open>Modelled from the spec: \<open>order.Book\<close>, the open bids and asks of a pair.\<close>

record Book =
  bids :: "Order list"
  asks :: "Order list"

text \<open>
  Modelled from the spec: \<open>order.Manager\<close>, as far as the server wires it: the books
  by pair and the event channel registered for each pair.
\<close>

record order_Manager =
  books :: "string \<rightharpoonup> Book"
  chans :: "string \<rightharpoonup> chan"

text \<open>Modelled from the spec: \<open>order.NewManager\<close>, the manager without books.\<close>

definition order_NewManager :: order_Manager where
  "order_NewManager = \<lparr>books = Map.empty, chans = Map.empty\<rparr>"

text \<open>Modelled from the spec: \<open>AddBook\<close> of the order manager.\<close>

definition AddBook :: "string \<Rightarrow> Book \<Rightarrow> order_Manager \<Rightarrow> order_Manager" where
  "AddBook cp b m = m\<lparr>books := (books m)(cp \<mapsto> b)\<rparr>"

text \<open>
  Modelled from the spec: \<open>RegisterOrderChan\<close> of the order manager
  (\<open>register_channel(pair, ch)\<close>), which wires the output of a pair to a channel.
\<close>

definition RegisterOrderChan :: "string \<Rightarrow> chan \<Rightarrow> order_Manager \<Rightarrow> order_Manager" where
  "RegisterOrderChan cp c m = m\<lparr>chans := (chans m)(cp \<mapsto> c)\<rparr>"

text \<open>
  Modelled from the spec: the server's wallets, one per chain, as the addresses they
  hold.
\<close>

type_synonym wallets = "string \<rightharpoonup> string list"

text \<open>
  Modelled from the spec: \<open>GetAddresses\<close> of the wallets, which fails for a chain
  without a wallet.
\<close>

definition GetAddresses :: "wallets \<Rightarrow> string \<Rightarrow> error + string list" where
  "GetAddresses w ct =
     (case w ct of None \<Rightarrow> Inl (NotSupported ct) | Some as \<Rightarrow> Inr as)"

subsection \<open>The server\<close>

text \<open>
  \<open>ExchangeServer\<close>. The two UTXO managers are interface values: their states are the
  type parameters \<open>'b\<close> and \<open>'s\<close>, and their methods are parameters of the server
  methods that call them. \<open>orderHandlers\<close> is the map literal of \<open>New\<close>, kept as the
  list of its entries because \<open>Run\<close> iterates over it.
\<close>

record ('b, 's) ExchangeServer =
  Manager :: Manager
  btcum :: 'b
  skyum :: 's
  orderManager :: order_Manager
  cfg :: Config
  wallets :: wallets
  orderHandlers :: "(string \<times> chan) list"
  coins :: "string \<rightharpoonup> Gateway"

text \<open>
  What \<open>New\<close> reads from outside the server: the results of loading the persisted
  stores (\<open>NotExist\<close> when \<open>os.IsNotExist(err)\<close>), of creating the wallets, and the
  constructors of the two UTXO managers.
\<close>

datatype 'a load_result = Loaded 'a | NotExist | LoadError error

record ('b, 's) environment =
  account_LoadManager :: "Manager load_result"
  makeWallets :: "error + wallets"
  bitcoin_NewUtxoManager :: "64 word \<Rightarrow> string list \<Rightarrow> 'b"
  skycoin_NewUtxoManager :: "string \<Rightarrow> 64 word \<Rightarrow> string list \<Rightarrow> 's"
  order_LoadManager :: "order_Manager load_result"

text \<open>
  \<open>New\<close>: every failure but a missing file is a panic, in the order of the calls. A
  missing key of \<open>cfg.NodeAddresses\<close> reads as the empty string. The creation of the
  data directories only logs its failures and leaves no trace in the server value.
\<close>

definition New :: "('b, 's) environment \<Rightarrow> Config \<Rightarrow> panic + ('b, 's) ExchangeServer" where
  "New env c =
     (case (case account_LoadManager env of
              Loaded m \<Rightarrow> Inr m
            | NotExist \<Rightarrow> Inr NewManager
            | LoadError e \<Rightarrow> Inl (PanicErr e)) of
        Inl p \<Rightarrow> Inl p
      | Inr acntMgr \<Rightarrow>
     (case makeWallets env of
        Inl e \<Rightarrow> Inl (PanicErr e)
      | Inr wlts \<Rightarrow>
     (case GetAddresses wlts bitcoin_Type of
        Inl e \<Rightarrow> Inl (PanicErr e)
      | Inr btcWatchAddrs \<Rightarrow>
     (case GetAddresses wlts skycoin_Type of
        Inl e \<Rightarrow> Inl (PanicErr e)
      | Inr skyWatchAddrs \<Rightarrow>
     (case (case order_LoadManager env of
              Loaded m \<Rightarrow> Inr m
            | NotExist \<Rightarrow>
                Inr (AddBook ''bitcoin/skycoin'' \<lparr>bids = [], asks = []\<rparr> order_NewManager)
            | LoadError e \<Rightarrow> Inl (PanicErr e)) of
        Inl p \<Rightarrow> Inl p
      | Inr om \<Rightarrow>
          Inr \<lparr>Manager = acntMgr,
               btcum = bitcoin_NewUtxoManager env (UtxoPoolSize c) btcWatchAddrs,
               skyum = skycoin_NewUtxoManager env
                         (case NodeAddresses c skycoin_Type of None \<Rightarrow> [] | Some a \<Rightarrow> a)
                         (UtxoPoolSize c) skyWatchAddrs,
               orderManager = om,
               cfg = c,
               wallets = wlts,
               orderHandlers = [(''bitcoin/skycoin'', make_chan 100)],
               coins = Map.empty\<rparr>)))))"

text \<open>
  \<open>BindCoins\<close>: the loop over the arguments returns at the first gateway whose type is
  a key of \<open>coins\<close>; what it stored before stays stored.
\<close>

fun BindCoins :: "Gateway list \<Rightarrow> ('b, 's) ExchangeServer
                    \<Rightarrow> error option \<times> ('b, 's) ExchangeServer" where
  "BindCoins [] serv = (None, serv)"
| "BindCoins (c # cs) serv =
     (if coins serv (gw_Type c) \<noteq> None
      then (Some (AlreadyRegistered (gw_Type c)), serv)
      else BindCoins cs (serv\<lparr>coins := (coins serv)(gw_Type c \<mapsto> c)\<rparr>))"

text \<open>
  The first loop of \<open>Run\<close>: each entry of \<open>orderHandlers\<close> is registered with the order
  manager.
\<close>

fun registerOrderChans :: "(string \<times> chan) list \<Rightarrow> order_Manager \<Rightarrow> order_Manager" where
  "registerOrderChans [] m = m"
| "registerOrderChans ((cp, c) # hs) m = registerOrderChans hs (RegisterOrderChan cp c m)"

definition Run_register :: "('b, 's) ExchangeServer \<Rightarrow> ('b, 's) ExchangeServer" where
  "Run_register self =
     self\<lparr>orderManager := registerOrderChans (orderHandlers self) (orderManager self)\<rparr>"

text \<open>
  \<open>GetBtcFee\<close>: the conversion \<open>uint64(self.cfg.BtcFee)\<close> of the signed value.
\<close>

definition GetBtcFee :: "('b, 's) ExchangeServer \<Rightarrow> 64 word" where
  "GetBtcFee self = word_of_int (sint (BtcFee (cfg self)))"

definition GetSecKey :: "('b, 's) ExchangeServer \<Rightarrow> string" where
  "GetSecKey self = Seckey (cfg self)"

definition GetCoin :: "('b, 's) ExchangeServer \<Rightarrow> string \<Rightarrow> error + Gateway" where
  "GetCoin serv ct =
     (case coins serv ct of None \<Rightarrow> Inl (NotSupported ct) | Some c \<Rightarrow> Inr c)"

text \<open>
  \<open>ChooseUtxos\<close>. The result is an \<open>interface{}\<close>: a value of the bitcoin manager or
  of the skycoin manager. The managers' own \<open>ChooseUtxos\<close> take the amount and the
  timeout and return a result and the manager's new state.
\<close>

definition ChooseUtxos ::
  "('b \<Rightarrow> 64 word \<Rightarrow> 64 word \<Rightarrow> (error + 'u) \<times> 'b)
   \<Rightarrow> ('s \<Rightarrow> 64 word \<Rightarrow> 64 word \<Rightarrow> (error + 'v) \<times> 's)
   \<Rightarrow> string \<Rightarrow> 64 word \<Rightarrow> 64 word \<Rightarrow> ('b, 's) ExchangeServer
   \<Rightarrow> (error + ('u + 'v)) \<times> ('b, 's) ExchangeServer" where
  "ChooseUtxos btc_ChooseUtxos sky_ChooseUtxos cp amount tm self =
     (if cp = bitcoin_Type then
        (case btc_ChooseUtxos (btcum self) amount tm of
           (r, um) \<Rightarrow> (map_sum id Inl r, self\<lparr>btcum := um\<rparr>))
      else if cp = skycoin_Type then
        (case sky_ChooseUtxos (skyum self) amount tm of
           (r, um) \<Rightarrow> (map_sum id Inr r, self\<lparr>skyum := um\<rparr>))
      else (Inl UnknowCoinType, self))"

text \<open>
  \<open>PutUtxos\<close>. The argument is an \<open>interface{}\<close>; the type assertions
  \<open>utxos.([]bitcoin.Utxo)\<close> and \<open>utxos.([]skycoin.Utxo)\<close> panic on a value of another
  type. The function has no result: it returns, or it panics.
\<close>

datatype ('u, 'v) utxos = BtcUtxos "'u list" | SkyUtxos "'v list" | OtherValue

definition PutUtxos ::
  "('b \<Rightarrow> 'u \<Rightarrow> 'b) \<Rightarrow> ('s \<Rightarrow> 'v \<Rightarrow> 's)
   \<Rightarrow> string \<Rightarrow> ('u, 'v) utxos \<Rightarrow> ('b, 's) ExchangeServer
   \<Rightarrow> panic + ('b, 's) ExchangeServer" where
  "PutUtxos btc_PutUtxo sky_PutUtxo cp us self =
     (if cp = bitcoin_Type then
        (case us of
           BtcUtxos btcUtxos \<Rightarrow> Inr (self\<lparr>btcum := foldl btc_PutUtxo (btcum self) btcUtxos\<rparr>)
         | _ \<Rightarrow> Inl TypeAssertion)
      else if cp = skycoin_Type then
        (case us of
           SkyUtxos skyUtxos \<Rightarrow> Inr (self\<lparr>skyum := foldl sky_PutUtxo (skyum self) skyUtxos\<rparr>)
         | _ \<Rightarrow> Inl TypeAssertion)
      else Inr self)"

text \<open>\<open>SaveAccount\<close> returns the error of \<open>Save\<close>.\<close>

definition SaveAccount :: "('b, 's) ExchangeServer \<Rightarrow> error option \<times> ('b, 's) ExchangeServer" where
  "SaveAccount self = (case Save (Manager self) of (e, m) \<Rightarrow> (e, self\<lparr>Manager := m\<rparr>))"

text \<open>\<open>IsAdmin\<close>: \<open>strings.Contains(self.cfg.Admins, pubkey)\<close>.\<close>

definition IsAdmin :: "('b, 's) ExchangeServer \<Rightarrow> string \<Rightarrow> bool" where
  "IsAdmin self pubkey = Contains (Admins (cfg self)) pubkey"

text \<open>
  The admin test in the words of the specification: the pubkey is one of the pubkeys of
  the comma-separated list.
\<close>

definition is_admin_spec :: "('b, 's) ExchangeServer \<Rightarrow> string \<Rightarrow> bool" where
  "is_admin_spec self pubkey = (pubkey \<in> set (Split (Admins (cfg self)) CHR '',''))"

text \<open>
  \<open>settleOrder\<close>. \<open>GetAccount\<close> returns a reference to the account held by the manager,
  so the balance changes are changes of the manager's account: \<open>put_account\<close> writes
  them there. The product \<open>od.Price*od.Amount\<close> is a product of unsigned 64-bit
  integers: it wraps modulo \<open>2^64\<close>. The result of \<open>SaveAccount\<close> is discarded, as
  the code discards it. An order whose type is neither bid nor ask falls through the
  \<open>switch\<close>.
\<close>

definition put_account ::
  "string \<Rightarrow> Account \<Rightarrow> ('b, 's) ExchangeServer \<Rightarrow> ('b, 's) ExchangeServer" where
  "put_account aid a self =
     self\<lparr>Manager := (Manager self)\<lparr>accounts := (accounts (Manager self))(aid \<mapsto> a)\<rparr>\<rparr>"

definition settleOrder ::
  "string \<Rightarrow> Order \<Rightarrow> ('b, 's) ExchangeServer \<Rightarrow> panic + ('b, 's) ExchangeServer" where
  "settleOrder cp od self =
     (case GetAccount (Manager self) (AccountID od) of
        Inl err \<Rightarrow> Inl (PanicMsg ''error account id'')
      | Inr acnt \<Rightarrow>
          (let pair = Split cp CHR ''/'' in
           if length pair \<noteq> 2 then Inl (PanicMsg ''error coin pair'')
           else
             (let mainCt = pair ! 0; subCt = pair ! 1 in
              case Type od of
                Bid \<Rightarrow>
                  (case IncreaseBalance acnt mainCt (Amount od) of
                     Inl err \<Rightarrow> Inl (PanicErr err)
                   | Inr acnt1 \<Rightarrow>
                       Inr (snd (SaveAccount (put_account (AccountID od) acnt1 self))))
              | Ask \<Rightarrow>
                  (case IncreaseBalance acnt subCt ((Price od * Amount od) mod 2 ^ 64) of
                     Inl err \<Rightarrow> Inl (PanicErr err)
                   | Inr acnt1 \<Rightarrow>
                       (case DecreaseBalance acnt1 mainCt (Amount od) of
                          Inl err \<Rightarrow> Inl (PanicErr err)
                        | Inr acnt2 \<Rightarrow>
                            Inr (snd (SaveAccount (put_account (AccountID od) acnt2 self)))))
              | OtherType \<Rightarrow> Inr self)))"

text \<open>
  The task that \<open>handleOrders\<close> starts for a pair: it settles the events of the pair's
  channel one after the other, in the order received; a panic of \<open>settleOrder\<close> is not
  recovered, so it ends the process and no later event is settled.
\<close>

fun handleOrders ::
  "string \<Rightarrow> Order list \<Rightarrow> ('b, 's) ExchangeServer \<Rightarrow> panic + ('b, 's) ExchangeServer" where
  "handleOrders cp [] self = Inr self"
| "handleOrders cp (od # ods) self =
     (case settleOrder cp od self of
        Inl p \<Rightarrow> Inl p
      | Inr self1 \<Rightarrow> handleOrders cp ods self1)"

text \<open>The balance of an asset that an account holds in a server, if the account exists.\<close>

definition GetBalance :: "('b, 's) ExchangeServer \<Rightarrow> string \<Rightarrow> string \<Rightarrow> nat option" where
  "GetBalance self aid ct = map_option (\<lambda>a. balances a ct) (accounts (Manager self) aid)"




text \<open>The balance an account holds after a settlement, if the settlement returned.\<close>

definition settled_balance ::
  "panic + ('b, 's) ExchangeServer \<Rightarrow> string \<Rightarrow> string \<Rightarrow> nat option" where
  "settled_balance r aid ct = (case r of Inl p \<Rightarrow> None | Inr self \<Rightarrow> GetBalance self aid ct)"


subsection \<open>The UTXO manager of the specification\<close>

text \<open>
  Modelled from the spec: a UTXO, as its outpoint, its address and its amount. The
  managers of the two chains (\<open>bitcoin.UtxoManager\<close>, \<open>skycoin.UtxoManager\<close>) are not
  among the sources.
\<close>

record utxo =
  utxo_outpoint :: string
  utxo_address :: string
  utxo_value :: nat

text \<open>
  Modelled from the spec: the state of a UTXO manager, the live pool and the reserved
  outputs.
\<close>

record utxo_pool =
  live :: "utxo list"
  reserved :: "utxo list"

text \<open>
  Modelled from the spec: the greedy selection of \<open>ChooseUtxos\<close>, over outputs in
  decreasing value order: outputs are accumulated until their sum reaches the amount.
  The result is the selection and the outputs left, or nothing if the outputs do not
  reach the amount. An amount of 0 selects nothing.
\<close>

fun greedy_select :: "utxo list \<Rightarrow> nat \<Rightarrow> (utxo list \<times> utxo list) option" where
  "greedy_select [] need = (if need = 0 then Some ([], []) else None)"
| "greedy_select (u # us) need =
     (if need = 0 then Some ([], u # us)
      else (case greedy_select us (need - utxo_value u) of
              None \<Rightarrow> None
            | Some (sel, rest) \<Rightarrow> Some (u # sel, rest)))"

text \<open>
  Modelled from the spec: \<open>ChooseUtxos(amount, timeout)\<close> of a UTXO manager. The live
  pool is the pool as the refresh loop leaves it within the caller's timeout. The
  selected outputs move from live to reserved; if the live pool does not reach the
  amount, the call fails when the timeout has passed, and the timeout is its only
  failure.
\<close>

definition um_ChooseUtxos ::
  "utxo_pool \<Rightarrow> 64 word \<Rightarrow> 64 word \<Rightarrow> (error + utxo list) \<times> utxo_pool" where
  "um_ChooseUtxos um amount tm =
     (case greedy_select (rev (sort_key utxo_value (live um))) (unat amount) of
        None \<Rightarrow> (Inl ReservationTimeout, um)
      | Some (sel, rest) \<Rightarrow> (Inr sel, um\<lparr>live := rest, reserved := reserved um @ sel\<rparr>))"

subsection \<open>Example inputs\<close>

text \<open>
  A configuration with two admins and a fee of \<open>-1\<close>, two gateways, and the server of
  scenario S1: account \<open>A\<close> holds 1000 bitcoin units and account \<open>B\<close> 5000 skycoin
  units; \<open>A\<close>'s ask and \<open>B\<close>'s bid are both at price 5 for amount 100.
\<close>

definition example_cfg :: Config where
  "example_cfg =
     \<lparr>Server = ''127.0.0.1'', Port = 8080, BtcFee = - 1, DataDir = ''.exchange'',
      Seed = ''seed'', Seckey = ''seckey'', UtxoPoolSize = 1000,
      Admins = ''02aa,03bb'', NodeAddresses = Map.empty, HttpProf = False\<rparr>"

definition btc_gateway :: Gateway where
  "btc_gateway = \<lparr>gw_Type = ''bitcoin'', gw_Symbol = ''BTC''\<rparr>"

definition sky_gateway :: Gateway where
  "sky_gateway = \<lparr>gw_Type = ''skycoin'', gw_Symbol = ''SKY''\<rparr>"

definition S1_account_A :: Account where
  "S1_account_A = \<lparr>balances = (\<lambda>ct. 0)(''bitcoin'' := 1000), addresses = (\<lambda>ct. [])\<rparr>"

definition S1_account_B :: Account where
  "S1_account_B = \<lparr>balances = (\<lambda>ct. 0)(''skycoin'' := 5000), addresses = (\<lambda>ct. [])\<rparr>"

definition S1_server :: "'b \<Rightarrow> 's \<Rightarrow> ('b, 's) ExchangeServer" where
  "S1_server b s =
     \<lparr>Manager = \<lparr>accounts = [''A'' \<mapsto> S1_account_A, ''B'' \<mapsto> S1_account_B],
                 persisted = Map.empty\<rparr>,
      btcum = b,
      skyum = s,
      orderManager = AddBook ''bitcoin/skycoin'' \<lparr>bids = [], asks = []\<rparr> order_NewManager,
      cfg = example_cfg,
      wallets = [''bitcoin'' \<mapsto> [], ''skycoin'' \<mapsto> []],
      orderHandlers = [(''bitcoin/skycoin'', make_chan 100)],
      coins = Map.empty\<rparr>"

definition S1_ask :: Order where
  "S1_ask = \<lparr>AccountID = ''A'', Type = Ask, Price = 5, Amount = 100\<rparr>"

definition S1_bid :: Order where
  "S1_bid = \<lparr>AccountID = ''B'', Type = Bid, Price = 5, Amount = 100\<rparr>"

text \<open>
  An environment in which no store has been persisted yet, and a UTXO manager, with a
  list of outputs as its state, whose every request times out.
\<close>

definition fresh_environment :: "(nat list, nat list) environment" where
  "fresh_environment =
     \<lparr>account_LoadManager = NotExist,
      makeWallets = Inr [''bitcoin'' \<mapsto> [], ''skycoin'' \<mapsto> []],
      bitcoin_NewUtxoManager = (\<lambda>size addrs. []),
      skycoin_NewUtxoManager = (\<lambda>node size addrs. []),
      order_LoadManager = NotExist\<rparr>"

definition pool_times_out :: "nat list \<Rightarrow> 64 word \<Rightarrow> 64 word \<Rightarrow> (error + nat list) \<times> nat list" where
  "pool_times_out um amount tm = (Inl ReservationTimeout, um)"

definition pool_put :: "nat list \<Rightarrow> nat \<Rightarrow> nat list" where
  "pool_put um u = u # um"

text \<open>
  An ask whose total overflows 64 bits, price and amount both \<open>2^32\<close>, by an account
  \<open>W\<close> that holds \<open>2^32\<close> bitcoin units.
\<close>

definition overflow_account :: Account where
  "overflow_account =
     \<lparr>balances = (\<lambda>ct. 0)(''bitcoin'' := 4294967296), addresses = (\<lambda>ct. [])\<rparr>"

definition overflow_server :: "(unit, unit) ExchangeServer" where
  "overflow_server = put_account ''W'' overflow_account (S1_server () ())"

definition overflow_ask :: Order where
  "overflow_ask = \<lparr>AccountID = ''W'', Type = Ask, Price = 4294967296, Amount = 4294967296\<rparr>"

text \<open>A pool with live outputs of 5, 7 and 3 units, and a pool without outputs.\<close>

definition example_pool :: utxo_pool where
  "example_pool =
     \<lparr>live = [\<lparr>utxo_outpoint = ''tx1:0'', utxo_address = ''addr1'', utxo_value = 5\<rparr>,
              \<lparr>utxo_outpoint = ''tx2:0'', utxo_address = ''addr1'', utxo_value = 7\<rparr>,
              \<lparr>utxo_outpoint = ''tx3:1'', utxo_address = ''addr2'', utxo_value = 3\<rparr>],
      reserved = []\<rparr>"

definition empty_pool :: utxo_pool where
  "empty_pool = \<lparr>live = [], reserved = []\<rparr>"

section \<open>Properties\<close>

subsection \<open>Coin registration\<close>

text \<open>Gateways with fresh, pairwise distinct types are all registered without error.\<close>

lemma BindCoins_fresh:
  "\<forall>g\<in>set pre. coins serv (gw_Type g) = None \<Longrightarrow> distinct (map gw_Type pre) \<Longrightarrow>
   fst (BindCoins pre serv) = None"
proof (induction pre arbitrary: serv)
  case Nil
  then show ?case by simp
next
  case (Cons g pre)
  have "coins (serv\<lparr>coins := (coins serv)(gw_Type g \<mapsto> g)\<rparr>) (gw_Type h) = None"
    if "h \<in> set pre" for h
  proof -
    have "gw_Type g \<notin> gw_Type ` set pre" using Cons.prems(2) by simp
    then have "gw_Type h \<noteq> gw_Type g" using that by (metis imageI)
    then show ?thesis using that Cons.prems(1) by simp
  qed
  then have fresh:
    "\<forall>h\<in>set pre. coins (serv\<lparr>coins := (coins serv)(gw_Type g \<mapsto> g)\<rparr>) (gw_Type h) = None"
    by blast
  have d: "distinct (map gw_Type pre)" using Cons.prems by simp
  show ?case using Cons.IH [OF fresh d] Cons.prems by simp
qed

text \<open>A registered type keeps its gateway: the loop only stores under absent keys.\<close>

lemma BindCoins_keeps:
  "coins serv t \<noteq> None \<Longrightarrow> coins (snd (BindCoins cs serv)) t = coins serv t"
proof (induction cs arbitrary: serv)
  case Nil
  then show ?case by simp
next
  case (Cons c cs)
  show ?case
  proof (cases "coins serv (gw_Type c) = None")
    case False
    then show ?thesis by simp
  next
    case True
    then have ne: "gw_Type c \<noteq> t" using Cons.prems by auto
    let ?s = "serv\<lparr>coins := (coins serv)(gw_Type c \<mapsto> c)\<rparr>"
    have "coins ?s t \<noteq> None" using Cons.prems ne by simp
    from Cons.IH [OF this] show ?thesis using True ne by simp
  qed
qed

text \<open>After a run without error every argument is registered under its type.\<close>

lemma BindCoins_member:
  "fst (BindCoins pre serv) = None \<Longrightarrow> g \<in> set pre \<Longrightarrow>
   coins (snd (BindCoins pre serv)) (gw_Type g) = Some g"
proof (induction pre arbitrary: serv)
  case Nil
  then show ?case by simp
next
  case (Cons h pre)
  let ?s = "serv\<lparr>coins := (coins serv)(gw_Type h \<mapsto> h)\<rparr>"
  have fresh: "coins serv (gw_Type h) = None"
    using Cons.prems(1) by (auto split: if_splits)
  then have step: "BindCoins (h # pre) serv = BindCoins pre ?s" by simp
  have ok: "fst (BindCoins pre ?s) = None" using Cons.prems(1) step by simp
  show ?case
  proof (cases "g = h")
    case True
    have "coins ?s (gw_Type h) \<noteq> None" by simp
    from BindCoins_keeps [OF this, of pre] show ?thesis using True step by simp
  next
    case False
    then have "g \<in> set pre" using Cons.prems(2) by simp
    from Cons.IH [OF ok this] show ?thesis using step by simp
  qed
qed

lemma BindCoins_append:
  "fst (BindCoins pre serv) = None \<Longrightarrow>
   BindCoins (pre @ cs) serv = BindCoins cs (snd (BindCoins pre serv))"
  by (induction pre arbitrary: serv) (auto split: if_splits)

lemma BindCoins_conflict:
  "\<exists>c\<in>set cs. coins serv (gw_Type c) \<noteq> None \<Longrightarrow>
   \<exists>t. fst (BindCoins cs serv) = Some (AlreadyRegistered t)"
proof (induction cs arbitrary: serv)
  case Nil
  then show ?case by simp
next
  case (Cons c cs)
  show ?case
  proof (cases "coins serv (gw_Type c) = None")
    case False
    then show ?thesis by simp
  next
    case True
    then obtain d where d: "d \<in> set cs" "coins serv (gw_Type d) \<noteq> None"
      using Cons.prems by auto
    then have "\<exists>d\<in>set cs. coins (serv\<lparr>coins := (coins serv)(gw_Type c \<mapsto> c)\<rparr>) (gw_Type d) \<noteq> None"
      by auto
    from Cons.IH [OF this] show ?thesis using True by simp
  qed
qed

text \<open>
  C6: \<open>BindCoins\<close> returns the error "coin already registered" whenever a gateway of
  its argument list has the type of a gateway registered before the call, and returns no
  error when the types of the arguments are not registered and pairwise distinct.
\<close>

theorem BindCoins_conflict_or_success:
  "((\<exists>c\<in>set cs. coins serv (gw_Type c) \<noteq> None) \<longrightarrow>
      (\<exists>t. fst (BindCoins cs serv) = Some (AlreadyRegistered t))) \<and>
   ((\<forall>c\<in>set cs. coins serv (gw_Type c) = None) \<and> distinct (map gw_Type cs) \<longrightarrow>
      fst (BindCoins cs serv) = None)"
  using BindCoins_conflict [of cs serv] BindCoins_fresh [of cs serv] by auto

text \<open>
  With bitcoin registered, binding skycoin and bitcoin fails; on a server without coins,
  binding bitcoin and skycoin succeeds.
\<close>

theorem BindCoins_conflict_or_success_witness:
  "coins (S1_server () () \<lparr>coins := [''bitcoin'' \<mapsto> btc_gateway]\<rparr>) (gw_Type btc_gateway) \<noteq> None \<and>
   fst (BindCoins [sky_gateway, btc_gateway]
          (S1_server () () \<lparr>coins := [''bitcoin'' \<mapsto> btc_gateway]\<rparr>)) =
     Some (AlreadyRegistered ''bitcoin'') \<and>
   coins (S1_server () ()) (gw_Type btc_gateway) = None \<and>
   coins (S1_server () ()) (gw_Type sky_gateway) = None \<and>
   distinct (map gw_Type [btc_gateway, sky_gateway]) \<and>
   fst (BindCoins [btc_gateway, sky_gateway] (S1_server () ())) = None"
  using BindCoins_conflict_or_success
          [of "[sky_gateway, btc_gateway]"
              "S1_server () () \<lparr>coins := [''bitcoin'' \<mapsto> btc_gateway]\<rparr>"]
        BindCoins_conflict_or_success [of "[btc_gateway, sky_gateway]" "S1_server () ()"]
  by (simp add: S1_server_def btc_gateway_def sky_gateway_def)

text \<open>
  C9: \<open>BindCoins\<close> is not atomic on error. When the gateways before position \<open>i\<close>
  have unregistered, pairwise distinct types and the gateway at position \<open>i\<close> has a
  type that is registered (before the call, or by one of those before it), the call
  returns the error for that type, and the gateways before position \<open>i\<close> are
  registered in the server it leaves behind.
\<close>

theorem BindCoins_not_atomic:
  assumes "\<forall>g\<in>set pre. coins serv (gw_Type g) = None"
    and "distinct (map gw_Type pre)"
    and "coins serv (gw_Type c) \<noteq> None \<or> gw_Type c \<in> gw_Type ` set pre"
  shows "fst (BindCoins (pre @ c # rest) serv) = Some (AlreadyRegistered (gw_Type c)) \<and>
         (\<forall>g\<in>set pre. coins (snd (BindCoins (pre @ c # rest) serv)) (gw_Type g) = Some g)"
proof -
  let ?s = "snd (BindCoins pre serv)"
  have pre: "fst (BindCoins pre serv) = None"
    using assms(1,2) by (rule BindCoins_fresh)
  have reg: "coins ?s (gw_Type c) \<noteq> None"
  proof (cases "gw_Type c \<in> gw_Type ` set pre")
    case True
    then obtain g where "g \<in> set pre" "gw_Type g = gw_Type c" by auto
    then show ?thesis using BindCoins_member [OF pre, of g] by simp
  next
    case False
    then have "coins serv (gw_Type c) \<noteq> None" using assms(3) by simp
    then show ?thesis by (simp add: BindCoins_keeps)
  qed
  have "BindCoins (pre @ c # rest) serv = BindCoins (c # rest) ?s"
    using pre by (rule BindCoins_append)
  also have "\<dots> = (Some (AlreadyRegistered (gw_Type c)), ?s)"
    using reg by simp
  finally have eq: "BindCoins (pre @ c # rest) serv =
      (Some (AlreadyRegistered (gw_Type c)), ?s)" .
  show ?thesis using eq BindCoins_member [OF pre] by simp
qed

text \<open>
  Binding skycoin, skycoin, bitcoin on a server without coins: the second skycoin is the
  conflict, the first stays registered, and bitcoin is never reached.
\<close>

theorem BindCoins_not_atomic_witness:
  "coins (S1_server () ()) (gw_Type sky_gateway) = None \<and>
   distinct (map gw_Type [sky_gateway]) \<and>
   gw_Type sky_gateway \<in> gw_Type ` set [sky_gateway] \<and>
   fst (BindCoins ([sky_gateway] @ sky_gateway # [btc_gateway]) (S1_server () ())) =
     Some (AlreadyRegistered ''skycoin'') \<and>
   coins (snd (BindCoins ([sky_gateway] @ sky_gateway # [btc_gateway]) (S1_server () ())))
     ''skycoin'' = Some sky_gateway \<and>
   coins (snd (BindCoins ([sky_gateway] @ sky_gateway # [btc_gateway]) (S1_server () ())))
     ''bitcoin'' = None"
  using BindCoins_not_atomic [of "[sky_gateway]" "S1_server () ()" sky_gateway "[btc_gateway]"]
  by (simp add: S1_server_def btc_gateway_def sky_gateway_def)

subsection \<open>Configuration getters\<close>

text \<open>
  C10: \<open>GetBtcFee\<close> returns the configured fee converted from the signed integer to
  \<open>uint64\<close>: the unsigned value of the result is the configured value modulo \<open>2^64\<close>.
  For a negative configured value that is the value plus \<open>2^64\<close>, and never zero; the
  function has no error result.
\<close>

theorem GetBtcFee_conversion:
  "uint (GetBtcFee self) = sint (BtcFee (cfg self)) mod 2 ^ 64 \<and>
   (sint (BtcFee (cfg self)) < 0 \<longrightarrow>
      uint (GetBtcFee self) = sint (BtcFee (cfg self)) + 2 ^ 64 \<and> GetBtcFee self \<noteq> 0)"
proof -
  let ?v = "sint (BtcFee (cfg self))"
  have lo: "- (2 ^ 63) \<le> ?v" using sint_ge [of "BtcFee (cfg self)"] by simp
  have u: "uint (GetBtcFee self) = ?v mod 2 ^ 64"
    by (simp add: GetBtcFee_def uint_sint take_bit_eq_mod)
  have neg: "?v mod 2 ^ 64 = ?v + 2 ^ 64" if "?v < 0"
  proof -
    have "(?v + 2 ^ 64) mod 2 ^ 64 = ?v + 2 ^ 64"
      using lo that by (intro mod_pos_pos_trivial) simp_all
    then show ?thesis by simp
  qed
  have nz: "GetBtcFee self \<noteq> 0" if "?v < 0"
  proof
    assume "GetBtcFee self = 0"
    then have "uint (GetBtcFee self) = 0" by simp
    then show False using u neg [OF that] lo by simp
  qed
  show ?thesis using u neg nz by simp
qed

text \<open>A configured fee of \<open>-1\<close> is returned as \<open>2^64 - 1\<close>.\<close>

theorem GetBtcFee_conversion_witness:
  "sint (BtcFee (cfg (S1_server () ()))) = - 1 \<and>
   uint (GetBtcFee (S1_server () ())) = 18446744073709551615 \<and>
   GetBtcFee (S1_server () ()) \<noteq> 0"
  using GetBtcFee_conversion [of "S1_server () ()"]
  by (simp add: S1_server_def example_cfg_def)

subsection \<open>UTXO reservations\<close>

text \<open>
  C8: for every chain string other than "bitcoin" and "skycoin", \<open>PutUtxos\<close> returns
  (it has no error result and does not panic) and leaves the server, both pools
  included, as it was: the release is dropped.
\<close>

theorem PutUtxos_unknown_chain:
  "cp \<noteq> ''bitcoin'' \<Longrightarrow> cp \<noteq> ''skycoin'' \<Longrightarrow>
   PutUtxos btc_PutUtxo sky_PutUtxo cp us self = Inr self"
  by (simp add: PutUtxos_def bitcoin_Type_def skycoin_Type_def)

text \<open>Returning a bitcoin output under the misspelt chain "bitcoin-" changes nothing.\<close>

theorem PutUtxos_unknown_chain_witness:
  "''bitcoin-'' \<noteq> ''bitcoin'' \<and> ''bitcoin-'' \<noteq> ''skycoin'' \<and>
   PutUtxos pool_put pool_put ''bitcoin-'' (BtcUtxos [7]) (S1_server [] []) =
     Inr (S1_server [] []) \<and>
   PutUtxos pool_put pool_put ''bitcoin'' (BtcUtxos [7]) (S1_server [] []) =
     Inr (S1_server [7] [])"
  using PutUtxos_unknown_chain
          [of "''bitcoin-''" pool_put pool_put "BtcUtxos [7]" "S1_server [] []"]
  by (simp add: PutUtxos_def bitcoin_Type_def pool_put_def S1_server_def)

text \<open>
  The server passes on the failure of the chain's manager and adds one failure of its
  own, for a chain it does not know.
\<close>

lemma ChooseUtxos_dispatch:
  "(fst (ChooseUtxos btc_ChooseUtxos sky_ChooseUtxos cp amount tm self) = Inl e) =
     ((cp = bitcoin_Type \<and> fst (btc_ChooseUtxos (btcum self) amount tm) = Inl e) \<or>
      (cp = skycoin_Type \<and> fst (sky_ChooseUtxos (skyum self) amount tm) = Inl e) \<or>
      (cp \<noteq> bitcoin_Type \<and> cp \<noteq> skycoin_Type \<and> e = UnknowCoinType))"
proof -
  have neq: "bitcoin_Type \<noteq> skycoin_Type"
    by (simp add: bitcoin_Type_def skycoin_Type_def)
  have l: "(map_sum id f r = Inl e) = (r = Inl e)" for f :: "'x \<Rightarrow> 'y" and r :: "error + 'x"
    by (cases r) auto
  show ?thesis
    using neq by (auto simp: ChooseUtxos_def l split: prod.splits)
qed

lemma ChooseUtxos_unknown:
  "cp \<noteq> bitcoin_Type \<Longrightarrow> cp \<noteq> skycoin_Type \<Longrightarrow>
   ChooseUtxos btc_ChooseUtxos sky_ChooseUtxos cp amount tm self = (Inl UnknowCoinType, self)"
  by (simp add: ChooseUtxos_def)

text \<open>The manager of the specification fails with the timeout only.\<close>

lemma um_ChooseUtxos_only_timeout:
  "fst (um_ChooseUtxos um amount tm) = Inl e \<Longrightarrow> e = ReservationTimeout"
  by (auto simp: um_ChooseUtxos_def split: option.splits)

text \<open>A selection reaches the amount asked for.\<close>

lemma greedy_select_sum:
  "greedy_select us need = Some (sel, rest) \<Longrightarrow> need \<le> sum_list (map utxo_value sel)"
proof (induction us need arbitrary: sel rest rule: greedy_select.induct)
  case (1 need)
  then show ?case by (auto split: if_splits)
next
  case (2 u us need)
  show ?case
  proof (cases "need = 0")
    case True
    then show ?thesis by simp
  next
    case False
    then obtain sel' where g: "greedy_select us (need - utxo_value u) = Some (sel', rest)"
      and s: "sel = u # sel'"
      using "2.prems" by (auto split: option.splits)
    from "2.IH" [OF False g] s show ?thesis by simp
  qed
qed

text \<open>
  C5, with the exception the code makes: through the server, with the chain "bitcoin"
  or "skycoin", the reservation timeout is the only failure of \<open>ChooseUtxos\<close>; with
  any other chain string the call fails with the error "unknow coin type", and the
  server, both pools included, stays as it was.
\<close>

theorem ChooseUtxos_failure_modes:
  "(fst (ChooseUtxos um_ChooseUtxos um_ChooseUtxos cp amount tm self) = Inl e \<longrightarrow>
      ((cp = bitcoin_Type \<or> cp = skycoin_Type) \<and> e = ReservationTimeout) \<or>
      (cp \<noteq> bitcoin_Type \<and> cp \<noteq> skycoin_Type \<and> e = UnknowCoinType)) \<and>
   (cp \<noteq> bitcoin_Type \<and> cp \<noteq> skycoin_Type \<longrightarrow>
      ChooseUtxos um_ChooseUtxos um_ChooseUtxos cp amount tm self = (Inl UnknowCoinType, self))"
proof (intro conjI impI)
  assume f: "fst (ChooseUtxos um_ChooseUtxos um_ChooseUtxos cp amount tm self) = Inl e"
  then consider
      "cp = bitcoin_Type" "fst (um_ChooseUtxos (btcum self) amount tm) = Inl e"
    | "cp = skycoin_Type" "fst (um_ChooseUtxos (skyum self) amount tm) = Inl e"
    | "cp \<noteq> bitcoin_Type" "cp \<noteq> skycoin_Type" "e = UnknowCoinType"
    unfolding ChooseUtxos_dispatch by blast
  then show "((cp = bitcoin_Type \<or> cp = skycoin_Type) \<and> e = ReservationTimeout) \<or>
      (cp \<noteq> bitcoin_Type \<and> cp \<noteq> skycoin_Type \<and> e = UnknowCoinType)"
  proof cases
    case 1
    then show ?thesis using um_ChooseUtxos_only_timeout by blast
  next
    case 2
    then show ?thesis using um_ChooseUtxos_only_timeout by blast
  next
    case 3
    then show ?thesis by simp
  qed
next
  assume "cp \<noteq> bitcoin_Type \<and> cp \<noteq> skycoin_Type"
  then show "ChooseUtxos um_ChooseUtxos um_ChooseUtxos cp amount tm self =
    (Inl UnknowCoinType, self)"
    by (simp add: ChooseUtxos_unknown)
qed

text \<open>
  A bitcoin pool of 5, 7 and 3 units and an empty skycoin pool: a request for
  "litecoin" fails with the unknown-type error and changes nothing; requests for 16
  bitcoin units and for 1 skycoin unit fail with the timeout.
\<close>

theorem ChooseUtxos_failure_modes_witness:
  "''litecoin'' \<noteq> bitcoin_Type \<and> ''litecoin'' \<noteq> skycoin_Type \<and>
   ChooseUtxos um_ChooseUtxos um_ChooseUtxos ''litecoin'' 10 0 (S1_server example_pool empty_pool) =
     (Inl UnknowCoinType, S1_server example_pool empty_pool) \<and>
   fst (ChooseUtxos um_ChooseUtxos um_ChooseUtxos ''bitcoin'' 16 0
          (S1_server example_pool empty_pool)) = Inl ReservationTimeout \<and>
   fst (ChooseUtxos um_ChooseUtxos um_ChooseUtxos ''skycoin'' 1 0
          (S1_server example_pool empty_pool)) = Inl ReservationTimeout"
proof -
  let ?s = "S1_server example_pool empty_pool"
  have n: "''litecoin'' \<noteq> bitcoin_Type \<and> ''litecoin'' \<noteq> skycoin_Type"
    by (simp add: bitcoin_Type_def skycoin_Type_def)
  have b: "\<exists>e. fst (ChooseUtxos um_ChooseUtxos um_ChooseUtxos ''bitcoin'' 16 0 ?s) = Inl e"
    by (simp add: ChooseUtxos_def um_ChooseUtxos_def bitcoin_Type_def S1_server_def
        example_pool_def)
  have k: "\<exists>e. fst (ChooseUtxos um_ChooseUtxos um_ChooseUtxos ''skycoin'' 1 0 ?s) = Inl e"
    by (simp add: ChooseUtxos_def um_ChooseUtxos_def bitcoin_Type_def skycoin_Type_def
        S1_server_def empty_pool_def)
  from b obtain e1 where
    e1: "fst (ChooseUtxos um_ChooseUtxos um_ChooseUtxos ''bitcoin'' 16 0 ?s) = Inl e1" by blast
  from k obtain e2 where
    e2: "fst (ChooseUtxos um_ChooseUtxos um_ChooseUtxos ''skycoin'' 1 0 ?s) = Inl e2" by blast
  have "e1 = ReservationTimeout"
    using ChooseUtxos_failure_modes [of "''bitcoin''" 16 0 ?s e1] e1
    by (simp add: bitcoin_Type_def skycoin_Type_def)
  moreover have "e2 = ReservationTimeout"
    using ChooseUtxos_failure_modes [of "''skycoin''" 1 0 ?s e2] e2
    by (simp add: bitcoin_Type_def skycoin_Type_def)
  moreover have "ChooseUtxos um_ChooseUtxos um_ChooseUtxos ''litecoin'' 10 0 ?s =
     (Inl UnknowCoinType, ?s)"
    using ChooseUtxos_failure_modes [of "''litecoin''" 10 0 ?s] n by blast
  ultimately show ?thesis using n e1 e2 by simp
qed

text \<open>
  C5 as stated fails: a call for the chain "litecoin" fails, and its error is not the
  reservation timeout.
\<close>

theorem ChooseUtxos_unknown_coin_counterexample:
  "fst (ChooseUtxos pool_times_out pool_times_out ''litecoin'' 10 0 (S1_server [] [])) =
     Inl UnknowCoinType \<and> UnknowCoinType \<noteq> ReservationTimeout"
  by (simp add: ChooseUtxos_def bitcoin_Type_def skycoin_Type_def)


subsection \<open>Construction\<close>

text \<open>
  C7: in a server that \<open>New\<close> constructs, every pair of \<open>orderHandlers\<close> has an empty
  channel of capacity 100, and that channel is the one \<open>Run\<close> registers with the order
  manager for the pair.
\<close>

theorem New_orderHandlers_capacity:
  assumes "New env c = Inr self" and "(cp, ch) \<in> set (orderHandlers self)"
  shows "capacity ch = 100 \<and> buffer ch = [] \<and>
         chans (orderManager (Run_register self)) cp = Some ch"
proof -
  have "orderHandlers self = [(''bitcoin/skycoin'', make_chan 100)]"
    using assms(1)
    by (auto simp: New_def split: load_result.splits sum.splits)
  then show ?thesis using assms(2)
    by (simp add: Run_register_def RegisterOrderChan_def make_chan_def)
qed

text \<open>A first start, with nothing persisted: the pair bitcoin/skycoin is wired.\<close>

theorem New_orderHandlers_capacity_witness:
  "\<exists>self. New fresh_environment example_cfg = Inr self \<and>
     (''bitcoin/skycoin'', make_chan 100) \<in> set (orderHandlers self) \<and>
     capacity (make_chan 100) = 100 \<and>
     chans (orderManager (Run_register self)) ''bitcoin/skycoin'' = Some (make_chan 100)"
proof -
  obtain self where n: "New fresh_environment example_cfg = Inr self"
     and h: "(''bitcoin/skycoin'', make_chan 100) \<in> set (orderHandlers self)"
    by (simp add: New_def fresh_environment_def GetAddresses_def bitcoin_Type_def
        skycoin_Type_def)
  from New_orderHandlers_capacity [OF n h] n h show ?thesis by blast
qed

subsection \<open>Settlement\<close>

lemma settleOrder_Bid:
  assumes "accounts (Manager self) (AccountID od) = Some acnt"
    and "Split cp CHR ''/'' = [mainCt, subCt]"
    and "Type od = Bid"
  shows "settleOrder cp od self =
    Inr (snd (SaveAccount (put_account (AccountID od)
       (acnt\<lparr>balances := (balances acnt)(mainCt := balances acnt mainCt + Amount od)\<rparr>) self)))"
  using assms by (simp add: settleOrder_def GetAccount_def IncreaseBalance_def)

lemma settleOrder_Ask:
  assumes "accounts (Manager self) (AccountID od) = Some acnt"
    and "Split cp CHR ''/'' = [mainCt, subCt]"
    and "Type od = Ask"
  shows "settleOrder cp od self =
    (let credited =
       (balances acnt)(subCt := balances acnt subCt + (Price od * Amount od) mod 2 ^ 64) in
     if Amount od > credited mainCt then Inl (PanicErr InsufficientBalance)
     else Inr (snd (SaveAccount (put_account (AccountID od)
       (acnt\<lparr>balances := credited(mainCt := credited mainCt - Amount od)\<rparr>) self))))"
  using assms
  by (simp add: settleOrder_def GetAccount_def IncreaseBalance_def DecreaseBalance_def Let_def)

lemma saved_balance:
  "GetBalance (snd (SaveAccount (put_account aid a self))) aid ct = Some (balances a ct)"
  by (simp add: GetBalance_def SaveAccount_def Save_def put_account_def)

lemma saved_persisted:
  "persisted (Manager (snd (SaveAccount s))) = accounts (Manager (snd (SaveAccount s)))"
  by (simp add: SaveAccount_def Save_def)

lemma saved_other_account:
  "aid' \<noteq> aid \<Longrightarrow>
   accounts (Manager (snd (SaveAccount (put_account aid a self)))) aid' =
   accounts (Manager self) aid'"
  by (simp add: SaveAccount_def Save_def put_account_def)

text \<open>
  C2, with the arithmetic of the code: a matched event settled on the pair
  \<open>mainCt/subCt\<close> for an account. For a bid, the account's balance of the main asset
  grows by the amount and no other balance of the account changes. For an ask, the
  balance of the sub asset grows by price times amount modulo \<open>2^64\<close>, which is price
  times amount whenever that is below \<open>2^64\<close>, and the balance of the main asset,
  which was at least the amount, shrinks by the amount (when both assets are the same
  one, the one balance takes both changes). In both cases the accounts are persisted
  afterwards, and no other account changes.
\<close>

theorem settleOrder_balances:
  assumes "settleOrder cp od self = Inr self'"
    and "Split cp CHR ''/'' = [mainCt, subCt]"
    and "accounts (Manager self) (AccountID od) = Some acnt"
  shows "(Type od = Bid \<longrightarrow>
            GetBalance self' (AccountID od) mainCt = Some (balances acnt mainCt + Amount od) \<and>
            (\<forall>ct. ct \<noteq> mainCt \<longrightarrow>
               GetBalance self' (AccountID od) ct = Some (balances acnt ct))) \<and>
         (Type od = Ask \<and> mainCt \<noteq> subCt \<longrightarrow>
            GetBalance self' (AccountID od) subCt =
              Some (balances acnt subCt + (Price od * Amount od) mod 2 ^ 64) \<and>
            Amount od \<le> balances acnt mainCt \<and>
            GetBalance self' (AccountID od) mainCt = Some (balances acnt mainCt - Amount od) \<and>
            (\<forall>ct. ct \<noteq> mainCt \<and> ct \<noteq> subCt \<longrightarrow>
               GetBalance self' (AccountID od) ct = Some (balances acnt ct))) \<and>
         (Type od = Ask \<and> mainCt \<noteq> subCt \<and> Price od * Amount od < 2 ^ 64 \<longrightarrow>
            GetBalance self' (AccountID od) subCt =
              Some (balances acnt subCt + Price od * Amount od)) \<and>
         (Type od = Ask \<and> mainCt = subCt \<longrightarrow>
            Amount od \<le> balances acnt mainCt + (Price od * Amount od) mod 2 ^ 64 \<and>
            GetBalance self' (AccountID od) mainCt =
              Some (balances acnt mainCt + (Price od * Amount od) mod 2 ^ 64 - Amount od) \<and>
            (\<forall>ct. ct \<noteq> mainCt \<longrightarrow>
               GetBalance self' (AccountID od) ct = Some (balances acnt ct))) \<and>
         (Type od = Bid \<or> Type od = Ask \<longrightarrow>
            persisted (Manager self') = accounts (Manager self') \<and>
            (\<forall>aid. aid \<noteq> AccountID od \<longrightarrow>
               accounts (Manager self') aid = accounts (Manager self) aid))"
proof (cases "Type od")
  case Bid
  from settleOrder_Bid [OF assms(3) assms(2) Bid] assms(1)
  have "self' = snd (SaveAccount (put_account (AccountID od)
       (acnt\<lparr>balances := (balances acnt)(mainCt := balances acnt mainCt + Amount od)\<rparr>) self))"
    by simp
  then show ?thesis using Bid
    by (simp add: saved_balance saved_persisted saved_other_account)
next
  case Ask
  let ?credited =
    "(balances acnt)(subCt := balances acnt subCt + (Price od * Amount od) mod 2 ^ 64)"
  from settleOrder_Ask [OF assms(3) assms(2) Ask] assms(1)
  have le: "Amount od \<le> ?credited mainCt"
    and s: "self' = snd (SaveAccount (put_account (AccountID od)
       (acnt\<lparr>balances := ?credited(mainCt := ?credited mainCt - Amount od)\<rparr>) self))"
    by (simp_all add: Let_def split: if_splits)
  show ?thesis using Ask le unfolding s
    by (auto simp: saved_balance saved_persisted saved_other_account split: if_splits)
next
  case OtherType
  then show ?thesis by simp
qed

text \<open>
  The ask of \<open>A\<close> and the bid of \<open>B\<close> of scenario S1, each settled on the server of
  the scenario.
\<close>

theorem settleOrder_balances_witness:
  "\<exists>sa sb.
     Split ''bitcoin/skycoin'' CHR ''/'' = [''bitcoin'', ''skycoin''] \<and>
     settleOrder ''bitcoin/skycoin'' S1_ask (S1_server () ()) = Inr sa \<and>
     accounts (Manager (S1_server () ())) (AccountID S1_ask) = Some S1_account_A \<and>
     Type S1_ask = Ask \<and>
     GetBalance sa ''A'' ''skycoin'' = Some 500 \<and>
     GetBalance sa ''A'' ''bitcoin'' = Some 900 \<and>
     persisted (Manager sa) = accounts (Manager sa) \<and>
     settleOrder ''bitcoin/skycoin'' S1_bid (S1_server () ()) = Inr sb \<and>
     accounts (Manager (S1_server () ())) (AccountID S1_bid) = Some S1_account_B \<and>
     Type S1_bid = Bid \<and>
     GetBalance sb ''B'' ''bitcoin'' = Some 100 \<and>
     GetBalance sb ''B'' ''skycoin'' = Some 5000 \<and>
     persisted (Manager sb) = accounts (Manager sb)"
proof -
  let ?s = "S1_server () ()"
  have sp: "Split ''bitcoin/skycoin'' CHR ''/'' = [''bitcoin'', ''skycoin'']" by simp
  have aa: "accounts (Manager ?s) (AccountID S1_ask) = Some S1_account_A"
    by (simp add: S1_server_def S1_ask_def)
  have ab: "accounts (Manager ?s) (AccountID S1_bid) = Some S1_account_B"
    by (simp add: S1_server_def S1_bid_def)
  have ta: "Type S1_ask = Ask" by (simp add: S1_ask_def)
  have tb: "Type S1_bid = Bid" by (simp add: S1_bid_def)
  have "\<exists>sa. settleOrder ''bitcoin/skycoin'' S1_ask ?s = Inr sa"
    unfolding settleOrder_Ask [OF aa sp ta] by (simp add: S1_ask_def S1_account_A_def)
  then obtain sa where sa: "settleOrder ''bitcoin/skycoin'' S1_ask ?s = Inr sa"
    by blast
  have "\<exists>sb. settleOrder ''bitcoin/skycoin'' S1_bid ?s = Inr sb"
    unfolding settleOrder_Bid [OF ab sp tb] by simp
  then obtain sb where sb: "settleOrder ''bitcoin/skycoin'' S1_bid ?s = Inr sb"
    by blast
  have ra: "GetBalance sa ''A'' ''skycoin'' = Some 500 \<and>
            GetBalance sa ''A'' ''bitcoin'' = Some 900 \<and>
            persisted (Manager sa) = accounts (Manager sa)"
    using settleOrder_balances [OF sa sp aa] ta
    by (simp add: S1_ask_def S1_account_A_def)
  have rb: "GetBalance sb ''B'' ''bitcoin'' = Some 100 \<and>
            GetBalance sb ''B'' ''skycoin'' = Some 5000 \<and>
            persisted (Manager sb) = accounts (Manager sb)"
    using settleOrder_balances [OF sb sp ab] tb
    by (simp add: S1_bid_def S1_account_B_def)
  show ?thesis using sp sa sb aa ab ta tb ra rb by blast
qed

text \<open>
  C2 as stated fails where the product overflows: the ask of \<open>W\<close> at price \<open>2^32\<close>
  for amount \<open>2^32\<close> has the total \<open>2^64\<close>; settling it takes the \<open>2^32\<close>
  bitcoin units of \<open>W\<close> and credits no skycoin at all.
\<close>

theorem settleOrder_overflow_counterexample:
  "Type overflow_ask = Ask \<and>
   GetBalance overflow_server ''W'' ''skycoin'' = Some 0 \<and>
   GetBalance overflow_server ''W'' ''bitcoin'' = Some 4294967296 \<and>
   Price overflow_ask * Amount overflow_ask = 18446744073709551616 \<and>
   settled_balance (settleOrder ''bitcoin/skycoin'' overflow_ask overflow_server)
     ''W'' ''skycoin'' = Some 0 \<and>
   settled_balance (settleOrder ''bitcoin/skycoin'' overflow_ask overflow_server)
     ''W'' ''bitcoin'' = Some 0"
  by (simp add: settled_balance_def settleOrder_def GetAccount_def overflow_server_def
      overflow_ask_def overflow_account_def S1_server_def IncreaseBalance_def
      DecreaseBalance_def SaveAccount_def Save_def put_account_def GetBalance_def Let_def)

text \<open>
  C3: settling a matched event panics, and the panic ends the task of the pair with no
  later event settled, in each of these cases: the pair string does not split on "/"
  into exactly two components; the account id is unknown; the decrease of an ask finds
  a balance of the main asset smaller than the amount.
\<close>

theorem settleOrder_fatal:
  "(length (Split cp CHR ''/'') \<noteq> 2 \<longrightarrow>
      settleOrder cp od self =
        Inl (PanicMsg (if accounts (Manager self) (AccountID od) = None
                       then ''error account id'' else ''error coin pair''))) \<and>
   (accounts (Manager self) (AccountID od) = None \<longrightarrow>
      settleOrder cp od self = Inl (PanicMsg ''error account id'')) \<and>
   (accounts (Manager self) (AccountID od) = Some acnt \<and>
    Split cp CHR ''/'' = [mainCt, subCt] \<and> Type od = Ask \<and>
    ((balances acnt)(subCt := balances acnt subCt + Price od * Amount od)) mainCt < Amount od \<longrightarrow>
      settleOrder cp od self = Inl (PanicErr InsufficientBalance)) \<and>
   (handleOrders cp before self = Inr self1 \<and> settleOrder cp od self1 = Inl p \<longrightarrow>
      handleOrders cp (before @ od # later) self = Inl p)"
proof -
  have a: "length (Split cp CHR ''/'') \<noteq> 2 \<Longrightarrow>
      settleOrder cp od self =
        Inl (PanicMsg (if accounts (Manager self) (AccountID od) = None
                       then ''error account id'' else ''error coin pair''))"
    by (auto simp: settleOrder_def GetAccount_def split: option.splits)
  have b: "accounts (Manager self) (AccountID od) = None \<Longrightarrow>
      settleOrder cp od self = Inl (PanicMsg ''error account id'')"
    by (simp add: settleOrder_def GetAccount_def)
  have c: "settleOrder cp od self = Inl (PanicErr InsufficientBalance)"
    if acc: "accounts (Manager self) (AccountID od) = Some acnt"
      and sp: "Split cp CHR ''/'' = [mainCt, subCt]" and ask: "Type od = Ask"
      and low: "((balances acnt)(subCt := balances acnt subCt + Price od * Amount od)) mainCt
                  < Amount od"
  proof -
    have "(Price od * Amount od) mod 2 ^ 64 \<le> Price od * Amount od" by simp
    then have "((balances acnt)
                  (subCt := balances acnt subCt + (Price od * Amount od) mod 2 ^ 64)) mainCt
               \<le> ((balances acnt)(subCt := balances acnt subCt + Price od * Amount od)) mainCt"
      by simp
    then have "((balances acnt)
                  (subCt := balances acnt subCt + (Price od * Amount od) mod 2 ^ 64)) mainCt
               < Amount od"
      using low by (rule le_less_trans)
    then show ?thesis unfolding settleOrder_Ask [OF acc sp ask] Let_def by simp
  qed
  have d: "handleOrders cp before s = Inr self1 \<Longrightarrow> settleOrder cp od self1 = Inl p \<Longrightarrow>
      handleOrders cp (before @ od # later) s = Inl p" for s
    by (induction before arbitrary: s) (auto split: sum.splits)
  show ?thesis using a b c d by blast
qed

text \<open>
  On the server of scenario S1: the pair "bitcoin" has one component; the account
  \<open>C\<close> does not exist; an ask of 100 bitcoin by \<open>B\<close>, who holds none, cannot be
  debited, and the bid queued behind it is not settled.
\<close>

theorem settleOrder_fatal_witness:
  "length (Split ''bitcoin'' CHR ''/'') \<noteq> 2 \<and>
   settleOrder ''bitcoin'' S1_ask (S1_server () ()) = Inl (PanicMsg ''error coin pair'') \<and>
   accounts (Manager (S1_server () ())) ''C'' = None \<and>
   settleOrder ''bitcoin/skycoin'' (S1_ask\<lparr>AccountID := ''C''\<rparr>) (S1_server () ()) =
     Inl (PanicMsg ''error account id'') \<and>
   settleOrder ''bitcoin/skycoin'' (S1_ask\<lparr>AccountID := ''B''\<rparr>) (S1_server () ()) =
     Inl (PanicErr InsufficientBalance) \<and>
   handleOrders ''bitcoin/skycoin'' ([] @ (S1_ask\<lparr>AccountID := ''B''\<rparr>) # [S1_bid])
     (S1_server () ()) = Inl (PanicErr InsufficientBalance)"
proof -
  let ?s = "S1_server () ()"
  have 1: "length (Split ''bitcoin'' CHR ''/'') \<noteq> 2" by simp
  have 2: "accounts (Manager ?s) (AccountID (S1_ask\<lparr>AccountID := ''C''\<rparr>)) = None"
    by (simp add: S1_server_def)
  have 3: "accounts (Manager ?s) (AccountID (S1_ask\<lparr>AccountID := ''B''\<rparr>)) = Some S1_account_B \<and>
    Split ''bitcoin/skycoin'' CHR ''/'' = [''bitcoin'', ''skycoin''] \<and>
    Type (S1_ask\<lparr>AccountID := ''B''\<rparr>) = Ask \<and>
    ((balances S1_account_B)(''skycoin'' := balances S1_account_B ''skycoin'' +
        Price (S1_ask\<lparr>AccountID := ''B''\<rparr>) * Amount (S1_ask\<lparr>AccountID := ''B''\<rparr>))) ''bitcoin''
      < Amount (S1_ask\<lparr>AccountID := ''B''\<rparr>)"
    by (simp add: S1_server_def S1_ask_def S1_account_B_def)
  have 4: "handleOrders ''bitcoin/skycoin'' [] ?s = Inr ?s" by simp
  note t1 = settleOrder_fatal [of "''bitcoin''" S1_ask ?s, THEN conjunct1, rule_format, OF 1]
  note t2 = settleOrder_fatal [of "''bitcoin/skycoin''" "S1_ask\<lparr>AccountID := ''C''\<rparr>" ?s,
      THEN conjunct2, THEN conjunct1, rule_format, OF 2]
  note t3 = settleOrder_fatal [of "''bitcoin/skycoin''" "S1_ask\<lparr>AccountID := ''B''\<rparr>" ?s
      S1_account_B "''bitcoin''" "''skycoin''",
      THEN conjunct2, THEN conjunct2, THEN conjunct1, rule_format, OF 3]
  note t4 = settleOrder_fatal [of "''bitcoin/skycoin''" "S1_ask\<lparr>AccountID := ''B''\<rparr>" ?s
      _ _ _ "[]" ?s "PanicErr InsufficientBalance" "[S1_bid]",
      THEN conjunct2, THEN conjunct2, THEN conjunct2, rule_format, OF conjI [OF 4 t3]]
  have a: "accounts (Manager ?s) (AccountID S1_ask) \<noteq> None"
    by (simp add: S1_server_def S1_ask_def)
  show ?thesis using 1 2 t1 t2 t3 t4 a by simp
qed

text \<open>
  Settlement alone never takes the sub asset from a bidder: started from the balances
  of scenario S1 with no admission before it, it leaves \<open>B\<close> with 5000 skycoin units.
\<close>

lemma S1_settlement_alone:
  "settled_balance (handleOrders ''bitcoin/skycoin'' [S1_ask, S1_bid] (S1_server () ()))
     ''B'' ''skycoin'' = Some 5000"
  by (simp add: settled_balance_def settleOrder_def GetAccount_def S1_server_def S1_ask_def
      S1_bid_def S1_account_A_def S1_account_B_def IncreaseBalance_def DecreaseBalance_def
      SaveAccount_def Save_def put_account_def GetBalance_def Let_def)


subsection \<open>The admin test\<close>

lemma HasPrefix_iff: "HasPrefix s p = (\<exists>r. s = p @ r)"
  by (induction s p rule: HasPrefix.induct) auto

text \<open>\<open>Contains\<close> is the substring relation.\<close>

lemma Contains_iff: "Contains s sub = (\<exists>l r. s = l @ sub @ r)"
proof (induction s)
  case Nil
  then show ?case by (cases sub) auto
next
  case (Cons c cs)
  show ?case
  proof
    assume "Contains (c # cs) sub"
    then consider "HasPrefix (c # cs) sub" | "Contains cs sub" by auto
    then show "\<exists>l r. c # cs = l @ sub @ r"
    proof cases
      case 1
      then obtain r where "c # cs = sub @ r" by (auto simp: HasPrefix_iff)
      then have "c # cs = [] @ sub @ r" by simp
      then show ?thesis by blast
    next
      case 2
      then obtain l r where "cs = l @ sub @ r" using Cons.IH by blast
      then have "c # cs = (c # l) @ sub @ r" by simp
      then show ?thesis by blast
    qed
  next
    assume "\<exists>l r. c # cs = l @ sub @ r"
    then obtain l r where e: "c # cs = l @ sub @ r" by blast
    show "Contains (c # cs) sub"
    proof (cases l)
      case Nil
      then have "HasPrefix (c # cs) sub" using e by (auto simp: HasPrefix_iff)
      then show ?thesis by simp
    next
      case (Cons x l')
      then have "cs = l' @ sub @ r" using e by simp
      then have "Contains cs sub" using Cons.IH by blast
      then show ?thesis by simp
    qed
  qed
qed

text \<open>The empty pubkey passes the admin test of every server.\<close>

lemma IsAdmin_empty: "IsAdmin self []"
proof -
  have "Admins (cfg self) = [] @ [] @ Admins (cfg self)" by simp
  then have "Contains (Admins (cfg self)) []" unfolding Contains_iff by blast
  then show ?thesis by (simp add: IsAdmin_def)
qed

text \<open>
  C4: with the admins "02aa,03bb", \<open>IsAdmin\<close> accepts the admin "02aa", and it also
  accepts the empty string, the proper substring "2a" of an admin and the string
  "aa,03" that runs across the comma, none of which is a pubkey of the list.
\<close>

theorem IsAdmin_accepts_substrings:
  "Admins (cfg (S1_server () ())) = ''02aa,03bb'' \<and>
   IsAdmin (S1_server () ()) ''02aa'' \<and> is_admin_spec (S1_server () ()) ''02aa'' \<and>
   IsAdmin (S1_server () ()) '''' \<and> \<not> is_admin_spec (S1_server () ()) '''' \<and>
   IsAdmin (S1_server () ()) ''2a'' \<and> \<not> is_admin_spec (S1_server () ()) ''2a'' \<and>
   IsAdmin (S1_server () ()) ''aa,03'' \<and> \<not> is_admin_spec (S1_server () ()) ''aa,03''"
  by (simp add: IsAdmin_def is_admin_spec_def S1_server_def example_cfg_def)

end
